theory Spec2Isabelle
  imports Main
begin

section \<open>The wallet store of wallet-adapter (Angular): data model\<close>

text \<open>
  The store (class \<open>WalletStore\<close>) is an ngrx \<open>ComponentStore\<close> over the record
  \<open>WalletState\<close>, next to three private members: the persisted wallet name \<open>_name\<close>,
  the error subject \<open>_error\<close> and the flag \<open>_unloading\<close>.  Adapters are external,
  mutable objects: the store holds references to them, and reads their properties
  \<open>connected\<close> and \<open>publicKey\<close> when it handles an event.  The model therefore keeps
  an explicit heap from adapter references to the adapter objects as they are now.

  Everything the store does to the outside is logged: the errors pushed on \<open>_error\<close>,
  the adapter methods it invokes, the URLs it opens, and the states it sets: a
  \<open>ComponentStore\<close> emits every state that \<open>setState\<close> or \<open>patchState\<close> sets on
  \<open>state$\<close>, and \<open>emitted\<close> is the list of them, oldest first.
\<close>

type_synonym WalletName = string
type_synonym PublicKey = nat
type_synonym adapter_ref = nat

datatype error =
    WalletNotSelectedError
  | WalletNotReadyError
  | WalletNotConnectedError
  | AdapterError string

text \<open>The adapter object: its two properties and the three optional capabilities
  (\<open>'signTransaction' in adapter\<close> and so on).\<close>

record Adapter =
  a_connected :: bool
  a_publicKey :: "PublicKey option"
  in_signTransaction :: bool
  in_signAllTransactions :: bool
  in_signMessage :: bool

record Wallet =
  w_name :: WalletName
  w_url :: string
  w_icon :: string
  w_adapter :: adapter_ref

record WalletState =
  wallets :: "Wallet list"
  wallet :: "Wallet option"
  adapter :: "adapter_ref option"
  connecting :: bool
  disconnecting :: bool
  connected :: bool
  ready :: bool
  publicKey :: "PublicKey option"
  autoConnect :: bool

text \<open>The adapter methods that the commands of the store invoke.\<close>

datatype adapter_method =
    Connect | Disconnect | SendTransaction
  | SignTransaction | SignAllTransactions | SignMessage

record store =
  state :: WalletState
  name :: "WalletName option"
  unloading :: bool
  errors :: "error list"
  calls :: "(adapter_ref \<times> adapter_method) list"
  opened :: "string list"
  hasWindow :: bool
  heap :: "adapter_ref \<Rightarrow> Adapter"
  emitted :: "WalletState list"

text \<open>
  An adapter method returns a promise, which settles later: \<open>outcome\<close>.  A command of
  the store returns an observable; \<open>result\<close> is what a subscriber gets from it:
  completion without a value (a \<open>filter\<close> that drops the only element, or \<open>EMPTY\<close>),
  a value, an error, or nothing yet because the adapter's promise is pending.
\<close>

datatype 'v outcome = Resolved 'v | Rejected error

datatype 'v result = Completed | Emitted 'v | Failed error | Awaiting adapter_ref

section \<open>State updates, the error channel, adapter calls\<close>

definition patchState :: "(WalletState \<Rightarrow> WalletState) \<Rightarrow> store \<Rightarrow> store" where
  "patchState f s = s\<lparr>state := f (state s), emitted := emitted s @ [f (state s)]\<rparr>"

text \<open>\<open>patchState(initialState)\<close>: the constant \<open>initialState\<close> has the five fields
  \<open>wallet\<close>, \<open>adapter\<close>, \<open>ready\<close>, \<open>connected\<close>, \<open>publicKey\<close> and no other.\<close>

definition initialState :: "WalletState \<Rightarrow> WalletState" where
  "initialState st =
     st\<lparr>wallet := None, adapter := None, ready := False, connected := False,
        publicKey := None\<rparr>"

text \<open>\<open>this._error.next(error)\<close>\<close>

definition error_next :: "error \<Rightarrow> store \<Rightarrow> store" where
  "error_next e s = s\<lparr>errors := errors s @ [e]\<rparr>"

text \<open>\<open>from(defer(() => adapter.m(...)))\<close>, subscribed: the method is invoked.\<close>

definition invoke :: "adapter_ref \<Rightarrow> adapter_method \<Rightarrow> store \<Rightarrow> store" where
  "invoke a m s = s\<lparr>calls := calls s @ [(a, m)]\<rparr>"

text \<open>\<open>window.open(url, '_blank')\<close> under \<open>typeof window !== 'undefined'\<close>\<close>

definition window_open :: "string \<Rightarrow> store \<Rightarrow> store" where
  "window_open u s = (if hasWindow s then s\<lparr>opened := opened s @ [u]\<rparr> else s)"

section \<open>The persisted name and the resolution of the wallet\<close>

text \<open>
  Modelled from the spec: the class \<open>LocalStorageService\<close> (file \<open>local-storage\<close>) is
  not among the sources.  The spec describes it as a persistent slot holding one
  string-or-null value, with get and set, exposed as an observable of the current value.
  \<open>storeItem\<close> is the write.
\<close>

definition storeItem :: "WalletName option \<Rightarrow> store \<Rightarrow> store" where
  "storeItem v s = s\<lparr>name := v\<rparr>"

text \<open>The map of wallet names to wallets: a \<open>reduce\<close> over the list that assigns
  \<open>walletsByName[wallet.name] = wallet\<close>, so a later wallet replaces an earlier one of
  the same name.\<close>

definition walletsByName :: "Wallet list \<Rightarrow> WalletName \<rightharpoonup> Wallet" where
  "walletsByName ws = fold (\<lambda>w m. m(w_name w \<mapsto> w)) ws Map.empty"

text \<open>
  The effect \<open>onWalletChanged\<close>, the body of its \<open>tap\<close>.  In
  \<open>(name && walletsByName[name]) || null\<close> the empty string is falsy, as \<open>null\<close> is.
  The declared type of \<open>wallet.adapter\<close> is \<open>Adapter\<close>, an object, so that
  \<open>if (adapter)\<close> is taken exactly when a wallet was found.  The call
  \<open>this._name.setItem(name)\<close> of the first branch writes the value that is there.
\<close>

definition onWalletChanged :: "store \<Rightarrow> store" where
  "onWalletChanged s =
     (let found = (case name s of
                     None \<Rightarrow> None
                   | Some n \<Rightarrow> if n = [] then None else walletsByName (wallets (state s)) n)
      in case found of
           Some w \<Rightarrow>
             (let a = w_adapter w;
                  pk = a_publicKey (heap s a);
                  c = a_connected (heap s a)
              in patchState (\<lambda>st. st\<lparr>adapter := Some a, wallet := Some w, publicKey := pk,
                                     connected := c, ready := False\<rparr>)
                   (storeItem (name s) s))
         | None \<Rightarrow> patchState initialState s)"

text \<open>
  Modelled from the spec: \<open>LocalStorageService.setItem\<close> and the observable
  \<open>value$\<close> are not among the sources.  By the spec the value is exposed as an
  observable of the current value, and the wallet is resolved again whenever the
  persisted name changes.  So \<open>this._name.setItem(v)\<close>, as the commands use it, is the
  write and then, when the value has changed, the run of \<open>onWalletChanged\<close> that is
  subscribed to \<open>name$\<close>.
\<close>

definition setItem :: "WalletName option \<Rightarrow> store \<Rightarrow> store" where
  "setItem v s = (if name s = v then storeItem v s else onWalletChanged (storeItem v s))"

text \<open>The constructor: \<open>setState\<close> with the initial fields, after which
  \<open>onWalletChanged\<close> runs for the first time on the name found in the storage.  Its
  arguments are the \<open>autoConnect\<close> of the configuration (default \<open>false\<close>), the stored
  name, whether there is a window, and the adapter objects.\<close>

definition WalletStore ::
    "bool \<Rightarrow> WalletName option \<Rightarrow> bool \<Rightarrow> (adapter_ref \<Rightarrow> Adapter) \<Rightarrow> store" where
  "WalletStore cfg stored win h =
     (let st = \<lparr>wallets = [], wallet = None, adapter = None, connecting = False,
                disconnecting = False, connected = False, ready = False,
                publicKey = None, autoConnect = cfg\<rparr>
      in onWalletChanged
           \<lparr>state = st, name = stored, unloading = False, errors = [], calls = [],
            opened = [], hasWindow = win, heap = h, emitted = [st]\<rparr>)"

text \<open>\<open>setWallets\<close>: \<open>patchState({ wallets })\<close>; the registry changed, so
  \<open>onWalletChanged\<close> runs.\<close>

definition setWallets :: "Wallet list \<Rightarrow> store \<Rightarrow> store" where
  "setWallets ws s = onWalletChanged (patchState (\<lambda>st. st\<lparr>wallets := ws\<rparr>) s)"

section \<open>Effects on the adapter\<close>

text \<open>The adapter object \<open>a\<close> becomes \<open>obj\<close>: a wallet connects, or drops the
  connection, by itself and outside the store.\<close>

definition adapter_changes :: "adapter_ref \<Rightarrow> Adapter \<Rightarrow> store \<Rightarrow> store" where
  "adapter_changes a obj s = s\<lparr>heap := (heap s)(a := obj)\<rparr>"

text \<open>\<open>onAdapterChanged\<close>: the promise of \<open>adapter.ready()\<close> resolved with \<open>r\<close>.\<close>

definition onAdapterChanged :: "bool \<Rightarrow> store \<Rightarrow> store" where
  "onAdapterChanged r s = patchState (\<lambda>st. st\<lparr>ready := r\<rparr>) s"

text \<open>\<open>handleUnload\<close>: the window fires \<open>beforeunload\<close>.\<close>

definition handleUnload :: "store \<Rightarrow> store" where
  "handleUnload s = (if hasWindow s then s\<lparr>unloading := True\<rparr> else s)"

text \<open>The handlers of the adapter's events \<open>connect\<close>, \<open>disconnect\<close> and \<open>error\<close>;
  \<open>a\<close> is the adapter that the effect is subscribed to.\<close>

definition onConnect :: "adapter_ref \<Rightarrow> store \<Rightarrow> store" where
  "onConnect a s =
     patchState (\<lambda>st. st\<lparr>connected := a_connected (heap s a),
                          publicKey := a_publicKey (heap s a)\<rparr>) s"

definition onDisconnect :: "store \<Rightarrow> store" where
  "onDisconnect s = (if \<not> unloading s then setItem None s else s)"


text \<open>
  The effect \<open>autoConnect\<close> is a subscription of its own; a run of it is a step of its
  own in this model: the filter, the part up to the call of \<open>adapter.connect()\<close>, and
  the part after the promise settled (\<open>catchError\<close>, then \<open>finalize\<close>).
\<close>

definition autoConnect_filter :: "store \<Rightarrow> bool" where
  "autoConnect_filter s =
     (autoConnect (state s) \<and> ready (state s) \<and> \<not> connecting (state s)
      \<and> \<not> connected (state s))"

definition autoConnect_run :: "adapter_ref \<Rightarrow> store \<Rightarrow> store" where
  "autoConnect_run a s = invoke a Connect (patchState (\<lambda>st. st\<lparr>connecting := True\<rparr>) s)"

definition autoConnect_settled :: "unit outcome \<Rightarrow> store \<Rightarrow> store" where
  "autoConnect_settled out s =
     (case out of
        Resolved v \<Rightarrow> patchState (\<lambda>st. st\<lparr>connecting := False\<rparr>) s
      | Rejected e \<Rightarrow> patchState (\<lambda>st. st\<lparr>connecting := False\<rparr>) (setItem None s))"

section \<open>Commands\<close>

text \<open>
  A command that calls the adapter is in two parts: the synchronous part, up to the
  invocation of the adapter's method, and the part that runs when the promise has
  settled (the operators \<open>map\<close>, \<open>catchError\<close>, \<open>finalize\<close> after the call).  Between
  the two, anything may happen to the store; the second part takes the store as it is
  then.

  \<open>selectWallet\<close>: \<open>withLatestFrom\<close> reads name and adapter, the filter drops the
  action when the name is the persisted one.  The effect handles its actions one after
  the other (\<open>concatMap\<close>); the model follows one action.
\<close>

definition selectWallet :: "WalletName option \<Rightarrow> store \<Rightarrow> store" where
  "selectWallet newName s =
     (if newName = name s then s
      else case adapter (state s) of
             None \<Rightarrow> setItem newName s
           | Some a \<Rightarrow> invoke a Disconnect s)"

definition selectWallet_settled :: "WalletName option \<Rightarrow> unit outcome \<Rightarrow> store \<Rightarrow> store" where
  "selectWallet_settled newName out s =
     (case out of
        Resolved v \<Rightarrow> setItem newName s
      | Rejected e \<Rightarrow> s)"

text \<open>\<open>connect()\<close>, subscribed.\<close>

definition connect :: "store \<Rightarrow> unit result \<times> store" where
  "connect s =
     (let st = state s in
      if \<not> (\<not> connected st \<and> \<not> connecting st \<and> \<not> disconnecting st) then (Completed, s)
      else case (wallet st, adapter st) of
             (Some w, Some a) \<Rightarrow>
               if \<not> ready st then
                 (Failed WalletNotReadyError,
                  error_next WalletNotReadyError (window_open (w_url w) (setItem None s)))
               else
                 (Awaiting a,
                  invoke a Connect (patchState (\<lambda>st. st\<lparr>connecting := True\<rparr>) s))
           | _ \<Rightarrow> (Failed WalletNotSelectedError, error_next WalletNotSelectedError s))"

definition connect_settled :: "unit outcome \<Rightarrow> store \<Rightarrow> unit result \<times> store" where
  "connect_settled out s =
     (case out of
        Resolved v \<Rightarrow> (Emitted v, patchState (\<lambda>st. st\<lparr>connecting := False\<rparr>) s)
      | Rejected e \<Rightarrow>
          (Failed e, patchState (\<lambda>st. st\<lparr>connecting := False\<rparr>) (setItem None s)))"

text \<open>\<open>disconnect()\<close>, subscribed.  There is no \<open>catchError\<close>: a rejection reaches the
  subscriber, and \<open>finalize\<close> runs in both cases.\<close>

definition disconnect :: "store \<Rightarrow> unit result \<times> store" where
  "disconnect s =
     (if \<not> (\<not> disconnecting (state s)) then (Completed, s)
      else case adapter (state s) of
             None \<Rightarrow> (Completed, setItem None s)
           | Some a \<Rightarrow>
               (Awaiting a,
                invoke a Disconnect (patchState (\<lambda>st. st\<lparr>disconnecting := True\<rparr>) s)))"

definition disconnect_settled :: "unit outcome \<Rightarrow> store \<Rightarrow> unit result \<times> store" where
  "disconnect_settled out s =
     (let s' = patchState (\<lambda>st. st\<lparr>disconnecting := False\<rparr>) (setItem None s)
      in case out of
           Resolved v \<Rightarrow> (Emitted v, s')
         | Rejected e \<Rightarrow> (Failed e, s'))"







section \<open>A concrete registry\<close>

text \<open>Two wallets with an adapter each, for the concrete runs below.  Adapter 1
  supports signing of transactions, adapter 2 supports nothing optional.\<close>

definition walletA :: Wallet where
  "walletA = \<lparr>w_name = ''A'', w_url = ''https://a.example'', w_icon = ''a.svg'', w_adapter = 1\<rparr>"

definition walletB :: Wallet where
  "walletB = \<lparr>w_name = ''B'', w_url = ''https://b.example'', w_icon = ''b.svg'', w_adapter = 2\<rparr>"

definition adapters :: "adapter_ref \<Rightarrow> Adapter" where
  "adapters a =
     \<lparr>a_connected = False, a_publicKey = None, in_signTransaction = (a = 1),
      in_signAllTransactions = (a = 1), in_signMessage = False\<rparr>"

text \<open>A fresh store with nothing persisted; the registry is set, wallet A is selected:
  no adapter was selected before, so the name is persisted at once and the wallet is
  resolved, with \<open>ready = false\<close> until the adapter has answered.\<close>

definition store_A :: store where
  "store_A = selectWallet (Some ''A'') (setWallets [walletA, walletB] (WalletStore False None True adapters))"

definition store_A_ready :: store where
  "store_A_ready = onAdapterChanged True store_A"

text \<open>\<open>connect()\<close> on it: the adapter's \<open>connect\<close> is pending.\<close>

definition store_connecting :: store where
  "store_connecting = snd (connect store_A_ready)"

text \<open>\<open>disconnect()\<close> while that \<open>connect\<close> is pending.\<close>

definition store_overlap :: store where
  "store_overlap = snd (disconnect store_connecting)"

text \<open>\<open>disconnect()\<close> on wallet A before its adapter has reported readiness: the
  adapter's \<open>disconnect\<close> is pending.\<close>

definition store_disconnecting :: store where
  "store_disconnecting = snd (disconnect store_A)"

text \<open>A store constructed when the storage holds the name of a wallet and the registry
  is still empty.\<close>

definition store_stale :: store where
  "store_stale = WalletStore False (Some ''A'') True adapters"

text \<open>As \<open>store_A\<close>, where there is no window (rendering on a server).\<close>

definition store_nowin :: store where
  "store_nowin =
     selectWallet (Some ''A'') (setWallets [walletA, walletB] (WalletStore False None False adapters))"

text \<open>While the \<open>connect\<close> of \<open>store_connecting\<close> is pending, the wallet connects
  and the adapter emits its \<open>connect\<close> event, as adapters do before the promise
  resolves.\<close>

definition store_connect_event :: store where
  "store_connect_event =
     onConnect 1
       (adapter_changes 1 ((adapters 1)\<lparr>a_connected := True, a_publicKey := Some 7\<rparr>)
          store_connecting)"

text \<open>The promise resolves: wallet A is connected.\<close>

definition store_connected :: store where
  "store_connected = snd (connect_settled (Resolved ()) store_connect_event)"

text \<open>\<open>disconnect()\<close> on the connected wallet: the adapter's \<open>disconnect\<close> is pending.\<close>

definition store_teardown :: store where
  "store_teardown = snd (disconnect store_connected)"


section \<open>Frame lemmas\<close>

lemmas store_defs =
  patchState_def initialState_def error_next_def invoke_def window_open_def storeItem_def

lemma onWalletChanged_frame [simp]:
  "name (onWalletChanged s) = name s"
  "unloading (onWalletChanged s) = unloading s"
  "errors (onWalletChanged s) = errors s"
  "calls (onWalletChanged s) = calls s"
  "opened (onWalletChanged s) = opened s"
  "hasWindow (onWalletChanged s) = hasWindow s"
  "heap (onWalletChanged s) = heap s"
  by (simp_all add: onWalletChanged_def store_defs Let_def split: option.splits)

lemma onWalletChanged_flags [simp]:
  "wallets (state (onWalletChanged s)) = wallets (state s)"
  "connecting (state (onWalletChanged s)) = connecting (state s)"
  "disconnecting (state (onWalletChanged s)) = disconnecting (state s)"
  "autoConnect (state (onWalletChanged s)) = autoConnect (state s)"
  by (simp_all add: onWalletChanged_def store_defs Let_def split: option.splits)

lemma onWalletChanged_emitted:
  "emitted (onWalletChanged s) = emitted s @ [state (onWalletChanged s)]"
  by (simp add: onWalletChanged_def store_defs Let_def split: option.splits)

lemma setItem_frame [simp]:
  "name (setItem v s) = v"
  "unloading (setItem v s) = unloading s"
  "errors (setItem v s) = errors s"
  "calls (setItem v s) = calls s"
  "opened (setItem v s) = opened s"
  "hasWindow (setItem v s) = hasWindow s"
  "heap (setItem v s) = heap s"
  by (simp_all add: setItem_def storeItem_def)

lemma setItem_flags [simp]:
  "wallets (state (setItem v s)) = wallets (state s)"
  "connecting (state (setItem v s)) = connecting (state s)"
  "disconnecting (state (setItem v s)) = disconnecting (state s)"
  "autoConnect (state (setItem v s)) = autoConnect (state s)"
  by (simp_all add: setItem_def storeItem_def)

lemma setItem_emitted:
  "emitted (setItem v s) = (if name s = v then emitted s else emitted s @ [state (setItem v s)])"
  by (simp add: setItem_def onWalletChanged_emitted) (simp add: storeItem_def)

lemma onWalletChanged_no_match:
  assumes "name s = None \<or> (\<exists>n. name s = Some n \<and> walletsByName (wallets (state s)) n = None)"
  shows "onWalletChanged s = patchState initialState s"
proof (cases "name s")
  case None
  then show ?thesis by (simp add: onWalletChanged_def)
next
  case (Some n)
  with assms have "walletsByName (wallets (state s)) n = None" by simp
  with Some show ?thesis by (simp add: onWalletChanged_def)
qed

section \<open>The concrete stores, evaluated\<close>

lemma registry_lookup [simp]:
  "walletsByName [walletA, walletB] ''A'' = Some walletA"
  "walletsByName [walletA, walletB] ''B'' = Some walletB"
  "walletsByName [walletA, walletB] ''C'' = None"
  "walletsByName [] n = None"
  by (simp_all add: walletsByName_def walletA_def walletB_def)

lemma store_A_fields:
  "state store_A =
     \<lparr>wallets = [walletA, walletB], wallet = Some walletA, adapter = Some 1,
      connecting = False, disconnecting = False, connected = False, ready = False,
      publicKey = None, autoConnect = False\<rparr>"
  "name store_A = Some ''A''" "unloading store_A = False" "errors store_A = []"
  "calls store_A = []" "opened store_A = []" "hasWindow store_A = True"
  "heap store_A = adapters"
  by (simp_all add: store_A_def selectWallet_def setWallets_def WalletStore_def
      onWalletChanged_def setItem_def store_defs Let_def)
     (simp_all add: walletA_def adapters_def)

lemma store_A_ready_fields:
  "state store_A_ready =
     \<lparr>wallets = [walletA, walletB], wallet = Some walletA, adapter = Some 1,
      connecting = False, disconnecting = False, connected = False, ready = True,
      publicKey = None, autoConnect = False\<rparr>"
  "name store_A_ready = Some ''A''" "unloading store_A_ready = False"
  "errors store_A_ready = []" "calls store_A_ready = []" "opened store_A_ready = []"
  "hasWindow store_A_ready = True" "heap store_A_ready = adapters"
  by (simp_all add: store_A_ready_def onAdapterChanged_def patchState_def store_A_fields)

lemma store_connecting_fields:
  "state store_connecting =
     \<lparr>wallets = [walletA, walletB], wallet = Some walletA, adapter = Some 1,
      connecting = True, disconnecting = False, connected = False, ready = True,
      publicKey = None, autoConnect = False\<rparr>"
  "name store_connecting = Some ''A''" "unloading store_connecting = False"
  "errors store_connecting = []" "calls store_connecting = [(1, Connect)]"
  "opened store_connecting = []" "hasWindow store_connecting = True"
  "heap store_connecting = adapters"
  by (simp_all add: store_connecting_def connect_def Let_def store_defs store_A_ready_fields)

lemma store_overlap_fields:
  "state store_overlap =
     \<lparr>wallets = [walletA, walletB], wallet = Some walletA, adapter = Some 1,
      connecting = True, disconnecting = True, connected = False, ready = True,
      publicKey = None, autoConnect = False\<rparr>"
  "name store_overlap = Some ''A''" "unloading store_overlap = False"
  "errors store_overlap = []" "calls store_overlap = [(1, Connect), (1, Disconnect)]"
  "opened store_overlap = []" "hasWindow store_overlap = True"
  "heap store_overlap = adapters"
  by (simp_all add: store_overlap_def disconnect_def store_defs store_connecting_fields)

lemma store_disconnecting_fields:
  "state store_disconnecting =
     \<lparr>wallets = [walletA, walletB], wallet = Some walletA, adapter = Some 1,
      connecting = False, disconnecting = True, connected = False, ready = False,
      publicKey = None, autoConnect = False\<rparr>"
  "name store_disconnecting = Some ''A''" "unloading store_disconnecting = False"
  "errors store_disconnecting = []" "calls store_disconnecting = [(1, Disconnect)]"
  "opened store_disconnecting = []" "hasWindow store_disconnecting = True"
  "heap store_disconnecting = adapters"
  by (simp_all add: store_disconnecting_def disconnect_def store_defs store_A_fields)

lemma store_stale_fields:
  "state store_stale =
     \<lparr>wallets = [], wallet = None, adapter = None,
      connecting = False, disconnecting = False, connected = False, ready = False,
      publicKey = None, autoConnect = False\<rparr>"
  "name store_stale = Some ''A''" "unloading store_stale = False" "errors store_stale = []"
  "calls store_stale = []" "opened store_stale = []" "hasWindow store_stale = True"
  "heap store_stale = adapters"
  by (simp_all add: store_stale_def WalletStore_def onWalletChanged_def store_defs Let_def)

lemma store_nowin_fields:
  "state store_nowin =
     \<lparr>wallets = [walletA, walletB], wallet = Some walletA, adapter = Some 1,
      connecting = False, disconnecting = False, connected = False, ready = False,
      publicKey = None, autoConnect = False\<rparr>"
  "name store_nowin = Some ''A''" "unloading store_nowin = False" "errors store_nowin = []"
  "calls store_nowin = []" "opened store_nowin = []" "hasWindow store_nowin = False"
  "heap store_nowin = adapters"
  by (simp_all add: store_nowin_def selectWallet_def setWallets_def WalletStore_def
      onWalletChanged_def setItem_def store_defs Let_def)
     (simp_all add: walletA_def adapters_def)

lemma store_connect_event_fields:
  "state store_connect_event =
     \<lparr>wallets = [walletA, walletB], wallet = Some walletA, adapter = Some 1,
      connecting = True, disconnecting = False, connected = True, ready = True,
      publicKey = Some 7, autoConnect = False\<rparr>"
  "name store_connect_event = Some ''A''" "unloading store_connect_event = False"
  "errors store_connect_event = []" "calls store_connect_event = [(1, Connect)]"
  "opened store_connect_event = []" "hasWindow store_connect_event = True"
  by (simp_all add: store_connect_event_def onConnect_def adapter_changes_def patchState_def
      store_connecting_fields)


lemma store_connected_fields:
  "state store_connected =
     \<lparr>wallets = [walletA, walletB], wallet = Some walletA, adapter = Some 1,
      connecting = False, disconnecting = False, connected = True, ready = True,
      publicKey = Some 7, autoConnect = False\<rparr>"
  "name store_connected = Some ''A''" "unloading store_connected = False"
  "errors store_connected = []" "calls store_connected = [(1, Connect)]"
  "opened store_connected = []" "hasWindow store_connected = True"
  by (simp_all add: store_connected_def connect_settled_def patchState_def
      store_connect_event_fields)


lemma store_teardown_fields:
  "state store_teardown =
     \<lparr>wallets = [walletA, walletB], wallet = Some walletA, adapter = Some 1,
      connecting = False, disconnecting = True, connected = True, ready = True,
      publicKey = Some 7, autoConnect = False\<rparr>"
  "name store_teardown = Some ''A''"
  "calls store_teardown = [(1, Connect), (1, Disconnect)]"
  by (simp_all add: store_teardown_def disconnect_def store_defs store_connected_fields)


section \<open>Claims\<close>

text \<open>
  Claim C1, as the spec has it: on \<open>selectWallet(newName)\<close> with a new name and an
  adapter selected, the store invokes the adapter's \<open>disconnect\<close>, ignores its
  failure, and persists \<open>newName\<close> in both cases.  The code does not persist after a
  failure: \<open>catchError(() => EMPTY)\<close> ends the pipeline before the \<open>tap\<close> that
  writes the name.  On wallet A, selecting B with a \<open>disconnect\<close> that rejects leaves
  the persisted name at A.
\<close>

theorem selectWallet_failed_disconnect_counterexample:
  "Some ''B'' \<noteq> name store_A \<and> adapter (state store_A) = Some 1
   \<and> calls (selectWallet (Some ''B'') store_A) = [(1, Disconnect)]
   \<and> name (selectWallet_settled (Some ''B'') (Rejected (AdapterError ''failed''))
             (selectWallet (Some ''B'') store_A)) = Some ''A''"
  by (simp add: selectWallet_def selectWallet_settled_def store_A_fields invoke_def)

text \<open>
  Claim C1, amended.  On \<open>selectWallet(newName)\<close> where \<open>newName\<close> differs from the
  persisted name and an adapter is selected, the store first invokes that adapter's
  \<open>disconnect\<close> and does nothing else, the name being still the old one; when the
  \<open>disconnect\<close> has succeeded it persists \<open>newName\<close>; when it has failed the
  failure is swallowed and the store is left as it is, \<open>newName\<close> not persisted.
\<close>

theorem selectWallet_disconnects_then_persists:
  assumes "newName \<noteq> name s" and "adapter (state s) = Some a"
  shows "selectWallet newName s = s\<lparr>calls := calls s @ [(a, Disconnect)]\<rparr>
       \<and> name (selectWallet newName s) = name s
       \<and> name (selectWallet_settled newName (Resolved ()) t) = newName
       \<and> selectWallet_settled newName (Rejected e) t = t"
  using assms by (simp add: selectWallet_def selectWallet_settled_def invoke_def)

theorem selectWallet_disconnects_then_persists_witness:
  "Some ''B'' \<noteq> name store_A \<and> adapter (state store_A) = Some 1
   \<and> calls (selectWallet (Some ''B'') store_A) = [(1, Disconnect)]
   \<and> name (selectWallet (Some ''B'') store_A) = Some ''A''
   \<and> name (selectWallet_settled (Some ''B'') (Resolved ()) (selectWallet (Some ''B'') store_A))
       = Some ''B''
   \<and> wallet (state (selectWallet_settled (Some ''B'') (Resolved ())
                      (selectWallet (Some ''B'') store_A))) = Some walletB"
proof -
  have h: "Some ''B'' \<noteq> name store_A" "adapter (state store_A) = Some 1"
    by (simp_all add: store_A_fields)
  have w: "wallet (state (selectWallet_settled (Some ''B'') (Resolved ())
                      (selectWallet (Some ''B'') store_A))) = Some walletB"
    by (simp add: selectWallet_def selectWallet_settled_def store_A_fields invoke_def
        setItem_def storeItem_def onWalletChanged_def patchState_def Let_def)
  have c: "calls store_A = []" "name store_A = Some ''A''"
    by (simp_all add: store_A_fields)
  note t = selectWallet_disconnects_then_persists [OF h,
      of "selectWallet (Some ''B'') store_A" "AdapterError ''failed''"]
  have t1: "calls (selectWallet (Some ''B'') store_A) = [(1, Disconnect)]"
    using t [THEN conjunct1] c by simp
  have t2: "name (selectWallet (Some ''B'') store_A) = Some ''A''"
    using t [THEN conjunct2, THEN conjunct1] c by simp
  note t3 = t [THEN conjunct2, THEN conjunct2, THEN conjunct1]
  from h w t1 t2 t3 show ?thesis by simp
qed

text \<open>
  Claim C2, as the spec has it: after every failure of \<open>connect()\<close>, \<open>connecting\<close>
  is false and the persisted selection is cleared.  The branch "wallet not selected"
  does not write the name: a store constructed on a stored name A with an empty
  registry has no wallet selected, \<open>connect()\<close> fails there, and the name is still A.
\<close>

theorem connect_not_selected_counterexample:
  "fst (connect store_stale) = Failed WalletNotSelectedError
   \<and> name (snd (connect store_stale)) = Some ''A''"
  by (simp add: connect_def Let_def store_stale_fields error_next_def)

text \<open>
  Claim C2, amended.  After every failure of \<open>connect()\<close> the flag \<open>connecting\<close> is
  false.  The synchronous failures are "wallet not ready", after which the persisted
  selection is cleared, and "wallet not selected", after which it is what it was.  After
  a rejection of the adapter's \<open>connect\<close> the error is passed on and the persisted
  selection is cleared, whatever the store was when the promise settled.
\<close>

theorem connect_failure_clears:
  "(connect s = (Failed e, s') \<longrightarrow>
       \<not> connecting (state s')
     \<and> (e = WalletNotReadyError \<or> e = WalletNotSelectedError)
     \<and> (e = WalletNotReadyError \<longrightarrow> name s' = None)
     \<and> (e = WalletNotSelectedError \<longrightarrow> name s' = name s))
   \<and> fst (connect_settled (Rejected e) t) = Failed e
   \<and> \<not> connecting (state (snd (connect_settled (Rejected e) t)))
   \<and> name (snd (connect_settled (Rejected e) t)) = None"
  by (auto simp: connect_def connect_settled_def Let_def store_defs
      split: option.splits if_splits)

theorem connect_failure_clears_witness:
  "connect store_A = (Failed WalletNotReadyError, snd (connect store_A))
   \<and> \<not> connecting (state (snd (connect store_A)))
   \<and> name (snd (connect store_A)) = None
   \<and> connect store_stale = (Failed WalletNotSelectedError, snd (connect store_stale))
   \<and> \<not> connecting (state (snd (connect store_stale)))
   \<and> name (snd (connect store_stale)) = Some ''A''
   \<and> fst (connect_settled (Rejected (AdapterError ''rejected'')) store_connecting)
       = Failed (AdapterError ''rejected'')
   \<and> \<not> connecting (state (snd (connect_settled (Rejected (AdapterError ''rejected'')) store_connecting)))
   \<and> name (snd (connect_settled (Rejected (AdapterError ''rejected'')) store_connecting)) = None"
proof -
  have a: "connect store_A = (Failed WalletNotReadyError, snd (connect store_A))"
    by (simp add: connect_def Let_def store_A_fields)
  have b: "connect store_stale = (Failed WalletNotSelectedError, snd (connect store_stale))"
    by (simp add: connect_def Let_def store_stale_fields)
  have n: "name store_stale = Some ''A''" by (simp add: store_stale_fields)
  from connect_failure_clears [of store_A WalletNotReadyError "snd (connect store_A)"
        store_connecting]
      connect_failure_clears [of store_stale WalletNotSelectedError "snd (connect store_stale)"
        store_connecting]
      connect_failure_clears [of store_A "AdapterError ''rejected''" store_A store_connecting]
      a b n
  show ?thesis by simp
qed

text \<open>
  Claim C3, as the spec has it: in every reachable state \<open>connecting\<close> and
  \<open>disconnecting\<close> are not both true, and each of them implies that \<open>connected\<close>
  is false.  All three parts fail on runs from a fresh store with the registry set,
  wallet A selected and its adapter ready.  \<open>disconnect()\<close> is guarded by
  \<open>disconnecting\<close> alone: called while the adapter's \<open>connect\<close> is pending, it
  makes \<open>connecting\<close> and \<open>disconnecting\<close> both true.  The \<open>connect\<close> event,
  which the adapter emits before its promise resolves, copies \<open>adapter.connected\<close>:
  \<open>connecting\<close> and \<open>connected\<close> are both true until the promise resolves.  And
  \<open>disconnect()\<close> on a connected wallet sets \<open>disconnecting\<close> and leaves
  \<open>connected\<close> true until the adapter has disconnected.
\<close>

theorem flags_overlap_counterexample:
  "connecting (state store_overlap) \<and> disconnecting (state store_overlap)
   \<and> connecting (state store_connect_event) \<and> connected (state store_connect_event)
   \<and> disconnecting (state store_teardown) \<and> connected (state store_teardown)"
  by (simp add: store_overlap_fields store_connect_event_fields store_teardown_fields)

text \<open>
  Claim C3, amended.  \<open>connect()\<close> calls the adapter, and changes \<open>connecting\<close>,
  only from a state in which \<open>connecting\<close>, \<open>disconnecting\<close> and \<open>connected\<close> are
  all false; right after it has done so \<open>connecting\<close> is true and the other two are
  false.  \<open>disconnect()\<close> calls the adapter, and changes \<open>disconnecting\<close>, only from a
  state in which \<open>disconnecting\<close> is false; it sets it and leaves \<open>connecting\<close> and
  \<open>connected\<close> as they are.  The adapter's \<open>connect\<close> event sets \<open>connected\<close> to
  the adapter's own \<open>connected\<close> and leaves \<open>connecting\<close> and \<open>disconnecting\<close> as
  they are.
\<close>

theorem connect_starts_exclusive:
  "(connect s = (Awaiting a, s') \<longrightarrow>
       \<not> connecting (state s) \<and> \<not> disconnecting (state s) \<and> \<not> connected (state s)
     \<and> connecting (state s') \<and> \<not> disconnecting (state s') \<and> \<not> connected (state s')
     \<and> calls s' = calls s @ [(a, Connect)])
   \<and> (calls (snd (connect s)) \<noteq> calls s
        \<or> connecting (state (snd (connect s))) \<noteq> connecting (state s)
      \<longrightarrow> (\<exists>b. fst (connect s) = Awaiting b))
   \<and> (disconnect s = (Awaiting a, s'') \<longrightarrow>
       \<not> disconnecting (state s) \<and> disconnecting (state s'')
     \<and> connecting (state s'') = connecting (state s)
     \<and> connected (state s'') = connected (state s)
     \<and> calls s'' = calls s @ [(a, Disconnect)])
   \<and> (calls (snd (disconnect s)) \<noteq> calls s
        \<or> disconnecting (state (snd (disconnect s))) \<noteq> disconnecting (state s)
      \<longrightarrow> (\<exists>b. fst (disconnect s) = Awaiting b))
   \<and> connected (state (onConnect a s)) = a_connected (heap s a)
   \<and> connecting (state (onConnect a s)) = connecting (state s)
   \<and> disconnecting (state (onConnect a s)) = disconnecting (state s)"
  by (auto simp: connect_def disconnect_def onConnect_def Let_def store_defs
      split: option.splits if_splits)

theorem connect_starts_exclusive_witness:
  "connect store_A_ready = (Awaiting 1, store_connecting)
   \<and> \<not> connecting (state store_A_ready) \<and> \<not> disconnecting (state store_A_ready)
   \<and> \<not> connected (state store_A_ready)
   \<and> connecting (state store_connecting) \<and> \<not> disconnecting (state store_connecting)
   \<and> \<not> connected (state store_connecting)
   \<and> calls store_connecting = [(1, Connect)]
   \<and> calls (snd (connect store_connecting)) = calls store_connecting
   \<and> disconnect store_connected = (Awaiting 1, store_teardown)
   \<and> \<not> disconnecting (state store_connected)
   \<and> disconnecting (state store_teardown) \<and> connected (state store_teardown)
   \<and> calls (snd (disconnect store_teardown)) = calls store_teardown"
proof -
  have a: "connect store_A_ready = (Awaiting 1, store_connecting)"
    by (simp add: store_connecting_def connect_def Let_def store_A_ready_fields)
  have b: "disconnect store_connected = (Awaiting 1, store_teardown)"
    by (simp add: store_teardown_def disconnect_def store_connected_fields)
  have c: "calls store_A_ready = []" "connected (state store_connected)"
      "connecting (state store_connecting)" "disconnecting (state store_teardown)"
    by (simp_all add: store_A_ready_fields store_connected_fields store_connecting_fields
        store_teardown_fields)
  note t1 = connect_starts_exclusive [of store_A_ready 1 store_connecting store_A_ready,
      THEN conjunct1, rule_format, OF a]
  note t2 = connect_starts_exclusive [of store_connected 1 store_connected store_teardown,
      THEN conjunct2, THEN conjunct2, THEN conjunct1, rule_format, OF b]
  have t3: "calls (snd (connect store_connecting)) = calls store_connecting"
  proof (rule ccontr)
    assume n: "calls (snd (connect store_connecting)) \<noteq> calls store_connecting"
    from connect_starts_exclusive [of store_connecting 1 store_connecting store_connecting,
        THEN conjunct2, THEN conjunct1] n
    obtain b where f: "fst (connect store_connecting) = Awaiting b" by blast
    then have "connect store_connecting = (Awaiting b, snd (connect store_connecting))"
      by (simp add: prod_eq_iff)
    from connect_starts_exclusive [of store_connecting b "snd (connect store_connecting)"
        store_connecting, THEN conjunct1, rule_format, OF this] c
    show False by simp
  qed
  have t4: "calls (snd (disconnect store_teardown)) = calls store_teardown"
  proof (rule ccontr)
    assume n: "calls (snd (disconnect store_teardown)) \<noteq> calls store_teardown"
    from connect_starts_exclusive [of store_teardown 1 store_teardown store_teardown,
        THEN conjunct2, THEN conjunct2, THEN conjunct2, THEN conjunct1] n
    obtain b where f: "fst (disconnect store_teardown) = Awaiting b" by blast
    then have "disconnect store_teardown = (Awaiting b, snd (disconnect store_teardown))"
      by (simp add: prod_eq_iff)
    from connect_starts_exclusive [of store_teardown b store_teardown
        "snd (disconnect store_teardown)", THEN conjunct2, THEN conjunct2, THEN conjunct1,
        rule_format, OF this] c
    show False by simp
  qed
  from a b c t1 t2 t3 t4 show ?thesis by simp
qed




text \<open>
  Claim C5, as the spec has it: in every state with a wallet and an adapter selected and
  \<open>ready\<close> false, \<open>connect()\<close> clears the persisted selection, opens the wallet's
  URL and fails with \<open>WalletNotReadyError\<close>.  The guard of \<open>connect()\<close> comes first:
  with wallet A selected, not yet ready, and a \<open>disconnect()\<close> pending, \<open>connect()\<close>
  completes with no error and the name is still A.  And the URL is opened under
  \<open>typeof window !== 'undefined'\<close> only: where there is no window, nothing is opened.
\<close>

theorem connect_not_ready_guard_counterexample:
  "wallet (state store_disconnecting) = Some walletA
   \<and> adapter (state store_disconnecting) = Some 1
   \<and> \<not> ready (state store_disconnecting)
   \<and> connect store_disconnecting = (Completed, store_disconnecting)
   \<and> name store_disconnecting = Some ''A''
   \<and> wallet (state store_nowin) = Some walletA
   \<and> adapter (state store_nowin) = Some 1
   \<and> \<not> ready (state store_nowin)
   \<and> fst (connect store_nowin) = Failed WalletNotReadyError
   \<and> opened (snd (connect store_nowin)) = []"
  by (simp add: connect_def Let_def store_disconnecting_fields store_nowin_fields
      error_next_def window_open_def)

text \<open>
  Claim C5, amended.  In a state with a wallet and an adapter selected, \<open>ready\<close> false
  and none of \<open>connecting\<close>, \<open>disconnecting\<close>, \<open>connected\<close> set, \<open>connect()\<close>
  clears the persisted selection, opens the wallet's URL when there is a window, pushes
  and fails with \<open>WalletNotReadyError\<close>, invokes no method of the adapter, and never
  sets \<open>connecting = true\<close>: every state that the store sets during the call, the
  last one included, has \<open>connecting\<close> false.
\<close>

theorem connect_not_ready:
  assumes "wallet (state s) = Some w" and "adapter (state s) = Some a"
    and "\<not> ready (state s)"
    and "\<not> connected (state s)" and "\<not> connecting (state s)" and "\<not> disconnecting (state s)"
  shows "fst (connect s) = Failed WalletNotReadyError
       \<and> name (snd (connect s)) = None
       \<and> opened (snd (connect s)) = (if hasWindow s then opened s @ [w_url w] else opened s)
       \<and> errors (snd (connect s)) = errors s @ [WalletNotReadyError]
       \<and> calls (snd (connect s)) = calls s
       \<and> (\<exists>new. emitted (snd (connect s)) = emitted s @ new
                \<and> (\<forall>st \<in> set new. \<not> connecting st))
       \<and> \<not> connecting (state (snd (connect s)))"
proof -
  have c: "connect s =
      (Failed WalletNotReadyError,
       error_next WalletNotReadyError (window_open (w_url w) (setItem None s)))"
    using assms by (simp add: connect_def Let_def)
  have e: "emitted (snd (connect s)) = emitted (setItem None s)"
    by (simp add: c error_next_def window_open_def)
  have n: "\<not> connecting (state (setItem None s))"
    using assms by simp
  have "\<exists>new. emitted (setItem None s) = emitted s @ new \<and> (\<forall>st \<in> set new. \<not> connecting st)"
  proof (cases "name s = None")
    case True
    then have "emitted (setItem None s) = emitted s @ []" by (simp add: setItem_emitted)
    then show ?thesis by fastforce
  next
    case False
    then have "emitted (setItem None s) = emitted s @ [state (setItem None s)]"
      by (simp add: setItem_emitted)
    with n show ?thesis by fastforce
  qed
  with e n show ?thesis
    using assms by (simp add: c error_next_def window_open_def)
qed

theorem connect_not_ready_witness:
  "wallet (state store_A) = Some walletA \<and> adapter (state store_A) = Some 1
   \<and> \<not> ready (state store_A) \<and> \<not> connected (state store_A)
   \<and> \<not> connecting (state store_A) \<and> \<not> disconnecting (state store_A)
   \<and> fst (connect store_A) = Failed WalletNotReadyError
   \<and> name (snd (connect store_A)) = None
   \<and> opened (snd (connect store_A)) = [''https://a.example'']
   \<and> errors (snd (connect store_A)) = [WalletNotReadyError]
   \<and> calls (snd (connect store_A)) = []
   \<and> emitted (snd (connect store_A)) = emitted store_A @ [state (snd (connect store_A))]
   \<and> wallet (state (snd (connect store_A))) = None
   \<and> \<not> connecting (state (snd (connect store_A)))"
proof -
  have h: "wallet (state store_A) = Some walletA" "adapter (state store_A) = Some 1"
      "\<not> ready (state store_A)" "\<not> connected (state store_A)"
      "\<not> connecting (state store_A)" "\<not> disconnecting (state store_A)"
    by (simp_all add: store_A_fields)
  have c: "hasWindow store_A" "opened store_A = []" "errors store_A = []" "calls store_A = []"
      "w_url walletA = ''https://a.example''"
    by (simp_all add: store_A_fields walletA_def)
  have e: "emitted (snd (connect store_A)) = emitted store_A @ [state (snd (connect store_A))]"
      "wallet (state (snd (connect store_A))) = None"
    by (simp_all add: connect_def Let_def store_A_fields error_next_def window_open_def
        setItem_emitted)
       (simp add: setItem_def storeItem_def onWalletChanged_def patchState_def initialState_def
        store_A_fields)
  from connect_not_ready [OF h] h c e show ?thesis by simp
qed

text \<open>
  Claim C6.  A call of \<open>disconnect()\<close> while \<open>disconnecting\<close> is false: with no
  adapter selected it clears the persisted selection and invokes no adapter method;
  otherwise it sets \<open>disconnecting = true\<close> and invokes the adapter's
  \<open>disconnect\<close>, and once that has settled, by success or by failure and whatever
  the store is by then, the persisted selection is cleared and \<open>disconnecting\<close> is
  false.
\<close>

theorem disconnect_clears_selection:
  assumes "\<not> disconnecting (state s)"
  shows "(adapter (state s) = None \<longrightarrow>
            fst (disconnect s) = Completed
          \<and> name (snd (disconnect s)) = None
          \<and> calls (snd (disconnect s)) = calls s)
       \<and> (\<forall>a. adapter (state s) = Some a \<longrightarrow>
            fst (disconnect s) = Awaiting a
          \<and> disconnecting (state (snd (disconnect s)))
          \<and> calls (snd (disconnect s)) = calls s @ [(a, Disconnect)]
          \<and> (\<forall>out t. name (snd (disconnect_settled out t)) = None
                    \<and> \<not> disconnecting (state (snd (disconnect_settled out t)))))"
  using assms
  by (auto simp: disconnect_def disconnect_settled_def patchState_def invoke_def Let_def
      split: outcome.splits)

theorem disconnect_clears_selection_witness:
  "\<not> disconnecting (state store_stale) \<and> adapter (state store_stale) = None
   \<and> fst (disconnect store_stale) = Completed
   \<and> name (snd (disconnect store_stale)) = None
   \<and> calls (snd (disconnect store_stale)) = []
   \<and> \<not> disconnecting (state store_connecting) \<and> adapter (state store_connecting) = Some 1
   \<and> fst (disconnect store_connecting) = Awaiting 1
   \<and> disconnecting (state (snd (disconnect store_connecting)))
   \<and> calls (snd (disconnect store_connecting)) = [(1, Connect), (1, Disconnect)]
   \<and> name (snd (disconnect_settled (Rejected (AdapterError ''failed'')) store_overlap)) = None
   \<and> \<not> disconnecting (state (snd (disconnect_settled (Rejected (AdapterError ''failed'')) store_overlap)))
   \<and> name (snd (disconnect_settled (Resolved ()) store_overlap)) = None
   \<and> \<not> disconnecting (state (snd (disconnect_settled (Resolved ()) store_overlap)))"
proof -
  have h1: "\<not> disconnecting (state store_stale)" "adapter (state store_stale) = None"
      "calls store_stale = []"
    by (simp_all add: store_stale_fields)
  have h2: "\<not> disconnecting (state store_connecting)" "adapter (state store_connecting) = Some 1"
      "calls store_connecting = [(1, Connect)]"
    by (simp_all add: store_connecting_fields)
  from disconnect_clears_selection [OF h1(1)] disconnect_clears_selection [OF h2(1)] h1 h2
  show ?thesis by simp
qed

text \<open>
  Claim C7.  A call of \<open>connect()\<close> while \<open>connecting\<close>, \<open>connected\<close> or
  \<open>disconnecting\<close> is true is a no-op: the observable completes without a value or
  an error, and the store, with its log of adapter calls and of errors, is unchanged.
\<close>

theorem connect_guard_noop:
  assumes "connecting (state s) \<or> connected (state s) \<or> disconnecting (state s)"
  shows "connect s = (Completed, s)"
  using assms by (auto simp: connect_def Let_def)

theorem connect_guard_noop_witness:
  "connecting (state store_connecting) \<and> connect store_connecting = (Completed, store_connecting)"
proof -
  have h: "connecting (state store_connecting)" by (simp add: store_connecting_fields)
  then have "connecting (state store_connecting) \<or> connected (state store_connecting)
      \<or> disconnecting (state store_connecting)" by simp
  from connect_guard_noop [OF this] h show ?thesis by simp
qed

text \<open>
  Claim C8.  Whenever the persisted wallet name is null, or is non-null while no wallet
  of that name is in the registry, the wallet-resolution pipeline \<open>onWalletChanged\<close>
  resets the state to \<open>wallet = null\<close>, \<open>adapter = null\<close>, \<open>publicKey = null\<close>,
  \<open>connected = false\<close> and \<open>ready = false\<close>.  It is applied below to the connected
  wallet A, where all five fields are set, at the moment the persisted name has become
  C, which the registry does not have, and at the moment it has become null.
\<close>

theorem onWalletChanged_no_match_resets:
  assumes "name s = None \<or> (\<exists>n. name s = Some n \<and> walletsByName (wallets (state s)) n = None)"
  shows "wallet (state (onWalletChanged s)) = None
       \<and> adapter (state (onWalletChanged s)) = None
       \<and> publicKey (state (onWalletChanged s)) = None
       \<and> connected (state (onWalletChanged s)) = False
       \<and> ready (state (onWalletChanged s)) = False"
  by (simp add: onWalletChanged_no_match [OF assms] patchState_def initialState_def)

theorem onWalletChanged_no_match_resets_witness:
  "wallet (state (storeItem (Some ''C'') store_connected)) = Some walletA
   \<and> adapter (state (storeItem (Some ''C'') store_connected)) = Some 1
   \<and> publicKey (state (storeItem (Some ''C'') store_connected)) = Some 7
   \<and> connected (state (storeItem (Some ''C'') store_connected)) = True
   \<and> ready (state (storeItem (Some ''C'') store_connected)) = True
   \<and> name (storeItem (Some ''C'') store_connected) = Some ''C''
   \<and> walletsByName (wallets (state (storeItem (Some ''C'') store_connected))) ''C'' = None
   \<and> wallet (state (onWalletChanged (storeItem (Some ''C'') store_connected))) = None
   \<and> adapter (state (onWalletChanged (storeItem (Some ''C'') store_connected))) = None
   \<and> publicKey (state (onWalletChanged (storeItem (Some ''C'') store_connected))) = None
   \<and> connected (state (onWalletChanged (storeItem (Some ''C'') store_connected))) = False
   \<and> ready (state (onWalletChanged (storeItem (Some ''C'') store_connected))) = False
   \<and> name (storeItem None store_connected) = None
   \<and> wallet (state (storeItem None store_connected)) = Some walletA
   \<and> connected (state (storeItem None store_connected)) = True
   \<and> wallet (state (onWalletChanged (storeItem None store_connected))) = None
   \<and> adapter (state (onWalletChanged (storeItem None store_connected))) = None
   \<and> publicKey (state (onWalletChanged (storeItem None store_connected))) = None
   \<and> connected (state (onWalletChanged (storeItem None store_connected))) = False
   \<and> ready (state (onWalletChanged (storeItem None store_connected))) = False"
proof -
  have p: "wallet (state (storeItem (Some ''C'') store_connected)) = Some walletA"
      "adapter (state (storeItem (Some ''C'') store_connected)) = Some 1"
      "publicKey (state (storeItem (Some ''C'') store_connected)) = Some 7"
      "connected (state (storeItem (Some ''C'') store_connected)) = True"
      "ready (state (storeItem (Some ''C'') store_connected)) = True"
      "wallet (state (storeItem None store_connected)) = Some walletA"
      "connected (state (storeItem None store_connected)) = True"
    by (simp_all add: storeItem_def store_connected_fields)
  have h: "name (storeItem (Some ''C'') store_connected) = Some ''C''"
      "walletsByName (wallets (state (storeItem (Some ''C'') store_connected))) ''C'' = None"
    by (simp_all add: storeItem_def store_connected_fields)
  then have h': "name (storeItem (Some ''C'') store_connected) = None
      \<or> (\<exists>n. name (storeItem (Some ''C'') store_connected) = Some n
            \<and> walletsByName (wallets (state (storeItem (Some ''C'') store_connected))) n = None)"
    by blast
  have k: "name (storeItem None store_connected) = None" by (simp add: storeItem_def)
  then have k': "name (storeItem None store_connected) = None
      \<or> (\<exists>n. name (storeItem None store_connected) = Some n
            \<and> walletsByName (wallets (state (storeItem None store_connected))) n = None)"
    by blast
  from onWalletChanged_no_match_resets [OF h'] onWalletChanged_no_match_resets [OF k'] p h k
  show ?thesis by simp
qed




text \<open>
  Claim C10.  When \<open>onWalletChanged\<close> clears the state because the persisted name
  matches no registry entry, it writes the fields \<open>wallet\<close>, \<open>adapter\<close>, \<open>ready\<close>,
  \<open>connected\<close> and \<open>publicKey\<close> and nothing else: the store afterwards is the store
  before with these five fields reset, in one write, and \<open>wallets\<close>, \<open>connecting\<close>,
  \<open>disconnecting\<close> and \<open>autoConnect\<close> are as they were.
\<close>

theorem onWalletChanged_no_match_frame:
  assumes "name s = None \<or> (\<exists>n. name s = Some n \<and> walletsByName (wallets (state s)) n = None)"
  shows "onWalletChanged s =
           s\<lparr>state := (state s)\<lparr>wallet := None, adapter := None, ready := False,
                                  connected := False, publicKey := None\<rparr>,
             emitted := emitted s @
               [(state s)\<lparr>wallet := None, adapter := None, ready := False,
                           connected := False, publicKey := None\<rparr>]\<rparr>
       \<and> wallets (state (onWalletChanged s)) = wallets (state s)
       \<and> connecting (state (onWalletChanged s)) = connecting (state s)
       \<and> disconnecting (state (onWalletChanged s)) = disconnecting (state s)
       \<and> autoConnect (state (onWalletChanged s)) = autoConnect (state s)"
  by (simp add: onWalletChanged_no_match [OF assms] patchState_def initialState_def)

theorem onWalletChanged_no_match_frame_witness:
  "name (storeItem (Some ''C'') store_overlap) = Some ''C''
   \<and> walletsByName (wallets (state (storeItem (Some ''C'') store_overlap))) ''C'' = None
   \<and> wallets (state (onWalletChanged (storeItem (Some ''C'') store_overlap))) = [walletA, walletB]
   \<and> connecting (state (onWalletChanged (storeItem (Some ''C'') store_overlap))) = True
   \<and> disconnecting (state (onWalletChanged (storeItem (Some ''C'') store_overlap))) = True
   \<and> autoConnect (state (onWalletChanged (storeItem (Some ''C'') store_overlap))) = False"
proof -
  have h: "name (storeItem (Some ''C'') store_overlap) = Some ''C''"
      "walletsByName (wallets (state (storeItem (Some ''C'') store_overlap))) ''C'' = None"
    by (simp_all add: store_overlap_fields storeItem_def)
  then have "name (storeItem (Some ''C'') store_overlap) = None
      \<or> (\<exists>n. name (storeItem (Some ''C'') store_overlap) = Some n
            \<and> walletsByName (wallets (state (storeItem (Some ''C'') store_overlap))) n = None)"
    by blast
  note t = onWalletChanged_no_match_frame [OF this]
  from t [THEN conjunct2] h show ?thesis
    by (simp add: store_overlap_fields storeItem_def)
qed

end
